theory Spec2Isabelle
  imports Main "HOL-Library.Word" "HOL-Library.Sublist"
begin

unbundle bit_operations_syntax

section \<open>Identifiers: the uuid package as server.js uses it\<close>

text \<open>
  server.js obtains every identifier from \<^verbatim>\<open>uuidv4()\<close> of the uuid package: the
  storage name of a blob (line 49), the public code (line 59) and the login tokens.
  The package draws 16 random bytes, overwrites the version and variant bits and prints
  the bytes as lower-case hexadecimal in the groups 8-4-4-4-12. The random bytes are
  the only input, so the model takes them as an argument: a value of type \<open>rng\<close> gives
  the byte at each index, and only the indices 0 to 15 are read.
\<close>

type_synonym byte = "8 word"
type_synonym rng = "nat \<Rightarrow> byte"

definition hex_digits :: string where
  "hex_digits = ''0123456789abcdef''"

definition byteToHex :: "byte \<Rightarrow> string" where
  \<comment> \<open>\<^verbatim>\<open>(i + 0x100).toString(16).slice(1)\<close>: two lower-case hexadecimal digits.\<close>
  "byteToHex b = [hex_digits ! (unat b div 16), hex_digits ! (unat b mod 16)]"

definition v4_bytes :: "rng \<Rightarrow> rng" where
  \<comment> \<open>\<^verbatim>\<open>rnds[6] = (rnds[6] & 0x0f) | 0x40; rnds[8] = (rnds[8] & 0x3f) | 0x80\<close>\<close>
  "v4_bytes rnds = rnds(6 := (rnds 6 AND 0x0f) OR 0x40, 8 := (rnds 8 AND 0x3f) OR 0x80)"

definition unsafeStringify :: "rng \<Rightarrow> string" where
  "unsafeStringify arr =
     byteToHex (arr 0) @ byteToHex (arr 1) @ byteToHex (arr 2) @ byteToHex (arr 3) @ ''-'' @
     byteToHex (arr 4) @ byteToHex (arr 5) @ ''-'' @
     byteToHex (arr 6) @ byteToHex (arr 7) @ ''-'' @
     byteToHex (arr 8) @ byteToHex (arr 9) @ ''-'' @
     byteToHex (arr 10) @ byteToHex (arr 11) @ byteToHex (arr 12) @
     byteToHex (arr 13) @ byteToHex (arr 14) @ byteToHex (arr 15)"

definition uuidv4 :: "rng \<Rightarrow> string" where
  "uuidv4 rnds = unsafeStringify (v4_bytes rnds)"

definition code_of_bytes :: "byte \<times> byte \<times> byte \<times> byte \<Rightarrow> string" where
  \<comment> \<open>the eight characters that four bytes print as\<close>
  "code_of_bytes q =
     (case q of (a, b, c, d) \<Rightarrow> byteToHex a @ byteToHex b @ byteToHex c @ byteToHex d)"

definition generate_code :: "rng \<Rightarrow> string" where
  \<comment> \<open>server.js line 59: \<^verbatim>\<open>uuidv4().slice(0, 8)\<close>\<close>
  "generate_code rnds = take 8 (uuidv4 rnds)"


section \<open>The extension of the uploaded file's name\<close>

text \<open>
  Line 49 keeps \<^verbatim>\<open>path.extname(file.originalname)\<close> of the caller's file name. Node's
  POSIX \<^verbatim>\<open>path.extname\<close> looks at the last component of the path (trailing slashes
  dropped) and returns the text from its last dot to its end; the result is empty when
  the component has no dot, when its only dot is its first character, and when the
  component is \<^verbatim>\<open>..\<close>.
\<close>

definition last_component :: "string \<Rightarrow> string" where
  "last_component p =
     rev (takeWhile (\<lambda>c. c \<noteq> CHR ''/'') (dropWhile (\<lambda>c. c = CHR ''/'') (rev p)))"

definition extname :: "string \<Rightarrow> string" where
  "extname p =
     (let comp = last_component p;
          after_dot = rev (takeWhile (\<lambda>c. c \<noteq> CHR ''.'') (rev comp));
          before_dot = rev (tl (dropWhile (\<lambda>c. c \<noteq> CHR ''.'') (rev comp)))
      in if CHR ''.'' \<notin> set comp \<or> before_dot = [] \<or> comp = ''..'' then []
         else CHR ''.'' # after_dot)"

section \<open>State of the server\<close>

text \<open>
  The server keeps three things: the MongoDB collection of \<^verbatim>\<open>Image\<close> documents
  (lines 35 to 44), the collection of \<^verbatim>\<open>User\<close> documents (models/User.js) and the
  files of the \<^verbatim>\<open>uploads\<close> directory. A collection is the list of its documents in
  insertion order, which is the order \<^verbatim>\<open>findOne\<close> and \<^verbatim>\<open>deleteOne\<close> scan when the
  query gives no sort. The \<^verbatim>\<open>Image\<close> schema declares no unique index, so the list may
  hold several documents with one code. Times are milliseconds, as \<^verbatim>\<open>Date.now\<close> gives
  them. The uploads directory is flat, a map from file names to contents: the names
  the server writes (line 49) contain no slash.
\<close>

record image =
  code :: string
  filename :: string
  createdAt :: int

record user =
  email :: string
  password :: string

record server_state =
  images :: "image list"
  users :: "user list"
  uploads :: "string \<rightharpoonup> byte list"

text \<open>
  What a request takes from outside the program: the clock, whether the MongoDB
  connection answers (a rejected query is what the \<^verbatim>\<open>catch\<close> blocks handle), the random
  bytes of each \<^verbatim>\<open>uuidv4()\<close> call and the salts bcrypt generates. The server is taken
  to run in its own directory, so that \<^verbatim>\<open>uploads/\<close> of lines 19 and 48 and
  \<^verbatim>\<open>__dirname/uploads\<close> of line 76 are one directory. Whether that directory can be
  written is a separate input of the upload route, see \<open>upload_route\<close> below.
\<close>

record env =
  now :: int
  mongo_up :: bool
  rnd_filename :: rng
  rnd_code :: rng
  rnd_token :: rng
  salt_route :: string
  salt_hook :: string

record upload_file =
  originalname :: string
  content :: "byte list"

datatype response =
    Json nat "(string \<times> string) list"
  | Send nat string
  | Download string "byte list"
  | StaticFile string "byte list"
  | NotRouted string
  | ErrorPage nat string

text \<open>
  \<open>Json n kvs\<close> is \<^verbatim>\<open>res.status(n).json({...})\<close> and \<open>Send n msg\<close> is
  \<^verbatim>\<open>res.status(n).send(msg)\<close>. \<open>Download name bytes\<close> is \<^verbatim>\<open>res.download(filePath)\<close>:
  status 200, the file's content as body, and, since the call passes no file name of
  its own, the header \<^verbatim>\<open>Content-Disposition: attachment; filename="name"\<close> with the
  base name of \<^verbatim>\<open>filePath\<close>. \<open>StaticFile path bytes\<close> is a file served by
  \<^verbatim>\<open>express.static('uploads')\<close> for \<^verbatim>\<open>GET /path\<close>: status 200, the file's content as
  body, and headers for the content type, the length and the validators, none of which
  carries the path. \<open>NotRouted path\<close> is Express's own 404 when nothing matches
  \<^verbatim>\<open>GET /path\<close>; its body is \<^verbatim>\<open>Cannot GET /path\<close>. \<open>ErrorPage n text\<close> is the answer of
  Express's default error handler to an error that a middleware passes on outside the
  \<^verbatim>\<open>try\<close> block of a handler: status \<open>n\<close> and a page that prints the error, as it does
  unless \<^verbatim>\<open>NODE_ENV\<close> is \<^verbatim>\<open>production\<close>.
\<close>

definition findOne :: "('a \<Rightarrow> bool) \<Rightarrow> 'a list \<Rightarrow> 'a option" where
  "findOne q docs = find q docs"

fun deleteOne :: "('a \<Rightarrow> bool) \<Rightarrow> 'a list \<Rightarrow> 'a list" where
  "deleteOne q [] = []"
| "deleteOne q (d # docs) = (if q d then docs else d # deleteOne q docs)"

subsection \<open>Expiry\<close>

definition expires_ms :: int where
  \<comment> \<open>line 41: \<^verbatim>\<open>expires: 86400\<close> seconds\<close>
  "expires_ms = 86400 * 1000"

definition isExpired :: "int \<Rightarrow> image \<Rightarrow> bool" where
  "isExpired t img = (t - createdAt img \<ge> expires_ms)"

definition ttl_monitor :: "int \<Rightarrow> server_state \<Rightarrow> server_state" where
  \<comment> \<open>The \<^verbatim>\<open>expires\<close> option of line 41 makes Mongoose declare a TTL index, and MongoDB's
      TTL monitor, a background task of the database, then deletes expired documents.
      One pass of it at time \<open>t\<close> removes the documents that are expired at \<open>t\<close>; it
      touches no file. The server has no other expiry mechanism.\<close>
  "ttl_monitor t st = st\<lparr>images := filter (\<lambda>img. \<not> isExpired t img) (images st)\<rparr>"

subsection \<open>POST /upload\<close>

definition storage_filename :: "rng \<Rightarrow> upload_file \<Rightarrow> string" where
  \<comment> \<open>line 49: \<^verbatim>\<open>uuidv4() + path.extname(file.originalname)\<close>\<close>
  "storage_filename rnds file = uuidv4 rnds @ extname (originalname file)"

definition multer_single :: "env \<Rightarrow> upload_file option \<Rightarrow> server_state \<Rightarrow> string option \<times> server_state" where
  \<comment> \<open>\<^verbatim>\<open>upload.single('image')\<close> with the disk storage of lines 47 to 50: when the
      request carries a file part named image, its bytes are written to the uploads
      directory under the generated name, whatever their number, before the handler
      runs; the result is \<^verbatim>\<open>req.file.filename\<close>, or nothing when there is no such part.
      This is the middleware when the file can be written; \<open>upload_route\<close> adds the
      outcome of a write that fails.\<close>
  "multer_single e part st =
     (case part of
        None \<Rightarrow> (None, st)
      | Some file \<Rightarrow>
          (let name = storage_filename (rnd_filename e) file
           in (Some name, st\<lparr>uploads := (uploads st)(name \<mapsto> content file)\<rparr>)))"

definition post_upload :: "env \<Rightarrow> upload_file option \<Rightarrow> server_state \<Rightarrow> response \<times> server_state" where
  "post_upload e part st =
     (case multer_single e part st of
        (None, st1) \<Rightarrow> (Json 400 [(''error'', ''No file uploaded'')], st1)
      | (Some name, st1) \<Rightarrow>
          (let c = generate_code (rnd_code e);
               newEntry = \<lparr>code = c, filename = name, createdAt = now e\<rparr>
           in if \<not> mongo_up e
              then (Json 500 [(''error'', ''Upload failed due to server error'')], st1)
              else (Json 200 [(''code'', c)], st1\<lparr>images := images st1 @ [newEntry]\<rparr>)))"

subsection \<open>GET /download/:code and the static files\<close>

definition get_download :: "env \<Rightarrow> string \<Rightarrow> server_state \<Rightarrow> response \<times> server_state" where
  "get_download e c st =
     (if \<not> mongo_up e then (Send 500 ''Server error'', st)
      else case findOne (\<lambda>img. code img = c) (images st) of
        None \<Rightarrow> (Send 404 ''Invalid or expired code'', st)
      | Some img \<Rightarrow>
          (case uploads st (filename img) of
             None \<Rightarrow> (Send 404 ''Image expired or missing'',
                       st\<lparr>images := deleteOne (\<lambda>img. code img = c) (images st)\<rparr>)
           | Some bytes \<Rightarrow> (Download (filename img) bytes, st)))"

definition get_static :: "string \<Rightarrow> server_state \<Rightarrow> response \<times> server_state" where
  \<comment> \<open>line 19: \<^verbatim>\<open>app.use(express.static('uploads'))\<close>, for a path that names a file of the
      directory directly, as every name multer generates does.\<close>
  "get_static path st =
     (case uploads st path of
        None \<Rightarrow> (NotRouted path, st)
      | Some bytes \<Rightarrow> (StaticFile path bytes, st))"


subsection \<open>What a response shows\<close>





section \<open>Accounts: models/User.js and the routes /api/signup and /api/login\<close>

text \<open>
  The routes use three library functions whose code is not part of the repository.
  They are parameters of the model: \<open>bcrypt_hash salt data\<close> is the hash string bcrypt
  computes for \<open>data\<close> under \<open>salt\<close>, \<open>bcrypt_getSalt\<close> reads the salt back from a hash
  string, and \<open>email_setters\<close> is what the schema options \<^verbatim>\<open>lowercase: true, trim: true\<close>
  do to an email, both when a document is built and when a query is cast.
\<close>

record libs =
  bcrypt_hash :: "string \<Rightarrow> string \<Rightarrow> string"
  bcrypt_getSalt :: "string \<Rightarrow> string"
  email_setters :: "string \<Rightarrow> string"

definition bcrypt_compare :: "libs \<Rightarrow> string \<Rightarrow> string \<Rightarrow> bool" where
  \<comment> \<open>\<^verbatim>\<open>bcrypt.compare(data, encrypted)\<close>: hash \<open>data\<close> under the salt of \<open>encrypted\<close>
      and compare the two hash strings\<close>
  "bcrypt_compare L data encrypted =
     (bcrypt_hash L (bcrypt_getSalt L encrypted) data = encrypted)"

definition user_valid :: "user \<Rightarrow> bool" where
  \<comment> \<open>User.js lines 6 to 17: both paths required, password of at least 6 characters\<close>
  "user_valid u = (email u \<noteq> [] \<and> password u \<noteq> [] \<and> 6 \<le> length (password u))"

definition pre_save :: "libs \<Rightarrow> env \<Rightarrow> bool \<Rightarrow> user \<Rightarrow> user" where
  \<comment> \<open>User.js lines 21 to 31; the flag is \<^verbatim>\<open>this.isModified('password')\<close>\<close>
  "pre_save L e modified u =
     (if \<not> modified then u
      else u\<lparr>password := bcrypt_hash L (salt_hook e) (password u)\<rparr>)"

definition user_save :: "libs \<Rightarrow> env \<Rightarrow> user \<Rightarrow> server_state \<Rightarrow> server_state option" where
  \<comment> \<open>\<^verbatim>\<open>save()\<close> of a new document: Mongoose validates first, then runs the pre-save
      hook (the password path of a new document counts as modified), then inserts; the
      unique index on email rejects a second document with the same email. \<open>None\<close> is a
      rejected promise.\<close>
  "user_save L e u st =
     (if \<not> user_valid u then None
      else let u' = pre_save L e True u
           in if findOne (\<lambda>x. email x = email u') (users st) \<noteq> None then None
              else Some (st\<lparr>users := users st @ [u']\<rparr>))"

definition falsy :: "string option \<Rightarrow> bool" where
  \<comment> \<open>\<^verbatim>\<open>!x\<close> for a field of the JSON body that is absent or a string\<close>
  "falsy x = (x = None \<or> x = Some [])"

definition post_signup ::
  "libs \<Rightarrow> env \<Rightarrow> string option \<Rightarrow> string option \<Rightarrow> server_state \<Rightarrow> response \<times> server_state" where
  "post_signup L e em pw st =
     (if falsy em \<or> falsy pw then (Json 400 [(''message'', ''Email and password required'')], st)
      else if \<not> mongo_up e then (Json 500 [(''message'', ''Signup failed'')], st)
      else case findOne (\<lambda>u. email u = email_setters L (the em)) (users st) of
        Some existing \<Rightarrow> (Json 400 [(''message'', ''User already exists'')], st)
      | None \<Rightarrow>
          (let hashedPassword = bcrypt_hash L (salt_route e) (the pw);
               newUser = \<lparr>email = email_setters L (the em), password = hashedPassword\<rparr>
           in case user_save L e newUser st of
                None \<Rightarrow> (Json 500 [(''message'', ''Signup failed'')], st)
              | Some st' \<Rightarrow> (Json 201 [(''token'', uuidv4 (rnd_token e))], st')))"

definition post_login ::
  "libs \<Rightarrow> env \<Rightarrow> string option \<Rightarrow> string option \<Rightarrow> server_state \<Rightarrow> response \<times> server_state" where
  "post_login L e em pw st =
     (if falsy em \<or> falsy pw then (Json 400 [(''message'', ''Email and password required'')], st)
      else if \<not> mongo_up e then (Json 500 [(''message'', ''Login failed'')], st)
      else case findOne (\<lambda>u. email u = email_setters L (the em)) (users st) of
        None \<Rightarrow> (Json 401 [(''message'', ''Invalid credentials'')], st)
      | Some u \<Rightarrow>
          (if \<not> bcrypt_compare L (the pw) (password u)
           then (Json 401 [(''message'', ''Invalid credentials'')], st)
           else (Json 200 [(''token'', uuidv4 (rnd_token e))], st)))"

section \<open>The external interface\<close>

datatype request =
    PostUpload "upload_file option"
  | GetDownload string
  | GetStatic string
  | PostSignup "string option" "string option"
  | PostLogin "string option" "string option"

fun handle :: "libs \<Rightarrow> env \<Rightarrow> request \<Rightarrow> server_state \<Rightarrow> response \<times> server_state" where
  "handle L e (PostUpload part) st = post_upload e part st"
| "handle L e (GetDownload c) st = get_download e c st"
| "handle L e (GetStatic path) st = get_static path st"
| "handle L e (PostSignup em pw) st = post_signup L e em pw st"
| "handle L e (PostLogin em pw) st = post_login L e em pw st"


subsection \<open>The upload route when the file cannot be written\<close>






section \<open>Histories\<close>

text \<open>
  Between two requests of interest other things happen: further requests, passes of
  the TTL monitor, and files removed from the uploads directory by something other than
  the server (the server itself never removes a file).
\<close>

datatype event =
    Request env request
  | TtlPass int
  | Unlink string

fun step :: "libs \<Rightarrow> event \<Rightarrow> server_state \<Rightarrow> server_state" where
  "step L (Request e r) st = snd (handle L e r st)"
| "step L (TtlPass t) st = ttl_monitor t st"
| "step L (Unlink name) st = st\<lparr>uploads := (uploads st)(name := None)\<rparr>"

fun run :: "libs \<Rightarrow> event list \<Rightarrow> server_state \<Rightarrow> server_state" where
  "run L [] st = st"
| "run L (ev # evs) st = run L evs (step L ev st)"

fun undisturbed :: "string \<Rightarrow> int \<Rightarrow> event \<Rightarrow> bool" where
  \<comment> \<open>the event leaves alone the blob \<open>name\<close> and a record created at \<open>created\<close>: no TTL
      pass at or after the record's deadline, no removal of the file, no later upload
      that draws the same storage name\<close>
  "undisturbed name created (TtlPass t) = (t - created < expires_ms)"
| "undisturbed name created (Unlink n) = (n \<noteq> name)"
| "undisturbed name created (Request e (PostUpload (Some file))) =
     (storage_filename (rnd_filename e) file \<noteq> name)"
| "undisturbed name created (Request e r) = True"

fun writes_file :: "string \<Rightarrow> event \<Rightarrow> bool" where
  \<comment> \<open>the event removes the file \<open>name\<close> or is an upload that writes it\<close>
  "writes_file name (Unlink n) = (n = name)"
| "writes_file name (Request e (PostUpload (Some file))) =
     (storage_filename (rnd_filename e) file = name)"
| "writes_file name ev = False"

fun draws_code :: "string \<Rightarrow> event \<Rightarrow> bool" where
  \<comment> \<open>the event is an upload with a file whose generated code is \<open>c\<close>\<close>
  "draws_code c (Request e (PostUpload (Some file))) = (generate_code (rnd_code e) = c)"
| "draws_code c ev = False"

section \<open>Sample values\<close>

definition empty_state :: server_state where
  "empty_state = \<lparr>images = [], users = [], uploads = Map.empty\<rparr>"

definition env_a :: env where
  "env_a = \<lparr>now = 0, mongo_up = True, rnd_filename = (\<lambda>i. 0xaa), rnd_code = (\<lambda>i. 0x11),
             rnd_token = (\<lambda>i. 0), salt_route = ''s1'', salt_hook = ''s2''\<rparr>"

definition env_b :: env where
  \<comment> \<open>one second later; the code's random bytes repeat those of \<open>env_a\<close> in the first
      four positions, the storage name's do not\<close>
  "env_b = \<lparr>now = 1000, mongo_up = True, rnd_filename = (\<lambda>i. 0xbb),
             rnd_code = (\<lambda>i. if i < 4 then 0x11 else 0x22),
             rnd_token = (\<lambda>i. 0), salt_route = ''s3'', salt_hook = ''s4''\<rparr>"

definition env_late :: env where
  \<comment> \<open>25 hours after \<open>env_a\<close>\<close>
  "env_late = \<lparr>now = 90000000, mongo_up = True, rnd_filename = (\<lambda>i. 0xcc),
                rnd_code = (\<lambda>i. 0x33), rnd_token = (\<lambda>i. 0),
                salt_route = ''s5'', salt_hook = ''s6''\<rparr>"

definition file_a :: upload_file where
  "file_a = \<lparr>originalname = ''cat.png'', content = [1, 2, 3]\<rparr>"

definition file_b :: upload_file where
  "file_b = \<lparr>originalname = ''dog.jpg'', content = [4, 5]\<rparr>"

definition file_empty :: upload_file where
  "file_empty = \<lparr>originalname = ''empty.png'', content = []\<rparr>"

definition toy_libs :: libs where
  \<comment> \<open>stand-ins for the library functions, used only to evaluate examples: the hash
      string is the two-character salt followed by the data\<close>
  "toy_libs = \<lparr>bcrypt_hash = (\<lambda>salt data. salt @ ''$hash$'' @ data),
                bcrypt_getSalt = take 2, email_setters = id\<rparr>"

definition state_a :: server_state where
  \<comment> \<open>after the upload of \<open>file_a\<close> into the empty server\<close>
  "state_a = snd (post_upload env_a (Some file_a) empty_state)"

definition state_ab :: server_state where
  \<comment> \<open>after a second upload, which draws the code of the first\<close>
  "state_ab = snd (post_upload env_b (Some file_b) state_a)"

definition state_ab_orphan :: server_state where
  \<comment> \<open>the first blob has been removed from the directory behind the server's back\<close>
  "state_ab_orphan = step toy_libs (Unlink ''aaaaaaaa-aaaa-4aaa-aaaa-aaaaaaaaaaaa.png'') state_ab"

definition state_a_orphan :: server_state where
  \<comment> \<open>one record, and its blob removed behind the server's back\<close>
  "state_a_orphan = step toy_libs (Unlink ''aaaaaaaa-aaaa-4aaa-aaaa-aaaaaaaaaaaa.png'') state_a"

definition history :: "event list" where
  \<comment> \<open>a download of some other code, a TTL pass one hour after \<open>env_a\<close>, the removal of
      some other file and an upload with the randomness of \<open>env_late\<close>\<close>
  "history = [Request env_b (GetDownload ''0badc0de''), TtlPass 3600000,
              Unlink ''some-other-file.png'', Request env_late (PostUpload (Some file_b))]"

section \<open>An invariant of histories\<close>

definition serves :: "string \<Rightarrow> image \<Rightarrow> byte list \<Rightarrow> server_state \<Rightarrow> bool" where
  \<comment> \<open>the lookup of code \<open>c\<close> finds the record \<open>img\<close>, and the file it names holds \<open>bytes\<close>\<close>
  "serves c img bytes st =
     (findOne (\<lambda>x. code x = c) (images st) = Some img \<and> uploads st (filename img) = Some bytes)"

definition registered :: "libs \<Rightarrow> string \<Rightarrow> user \<Rightarrow> server_state \<Rightarrow> bool" where
  \<comment> \<open>the lookup of the email \<open>em\<close> finds the user document \<open>u\<close>\<close>
  "registered L em u st = (findOne (\<lambda>x. email x = email_setters L em) (users st) = Some u)"



section \<open>Properties of the identifiers\<close>

lemma length_byteToHex: "length (byteToHex b) = 2"
  by (simp add: byteToHex_def)

lemma length_uuidv4: "length (uuidv4 rnds) = 36"
  by (simp add: uuidv4_def unsafeStringify_def length_byteToHex)

lemma generate_code_bytes:
  "generate_code rnds =
     byteToHex (rnds 0) @ byteToHex (rnds 1) @ byteToHex (rnds 2) @ byteToHex (rnds 3)"
  by (simp add: generate_code_def uuidv4_def unsafeStringify_def length_byteToHex v4_bytes_def)

lemma length_generate_code: "length (generate_code rnds) = 8"
  by (simp add: generate_code_bytes length_byteToHex)

lemma distinct_hex_digits: "distinct hex_digits"
  by (simp add: hex_digits_def)

lemma length_hex_digits: "length hex_digits = 16"
  by (simp add: hex_digits_def)

lemma nibbles_less: "unat (b :: byte) div 16 < 16" "unat b mod 16 < 16"
proof -
  have "unat b < 256"
    using unsigned_less [of b, where ?'a = nat] by simp
  then show "unat b div 16 < 16" by simp
  show "unat b mod 16 < 16" by simp
qed

lemma set_byteToHex: "set (byteToHex b) \<subseteq> set hex_digits"
  using nibbles_less [of b] by (simp add: byteToHex_def length_hex_digits)

lemma set_generate_code: "set (generate_code rnds) \<subseteq> set hex_digits"
  using set_byteToHex by (simp add: generate_code_bytes)

lemma byteToHex_inj:
  assumes eq: "byteToHex a = byteToHex b"
  shows "a = b"
proof -
  from eq have "hex_digits ! (unat a div 16) = hex_digits ! (unat b div 16)"
    and "hex_digits ! (unat a mod 16) = hex_digits ! (unat b mod 16)"
    by (simp_all add: byteToHex_def)
  then have "unat a div 16 = unat b div 16" and "unat a mod 16 = unat b mod 16"
    using nibbles_less [of a] nibbles_less [of b] distinct_hex_digits
    by (simp_all add: nth_eq_iff_index_eq length_hex_digits)
  then have "unat a = unat b"
    by (metis div_mult_mod_eq)
  then show "a = b"
    by (rule word_unat_eq_iff [THEN iffD2])
qed

lemma inj_code_of_bytes: "inj code_of_bytes"
  by (rule injI) (auto simp: code_of_bytes_def length_byteToHex dest: byteToHex_inj)

lemma range_generate_code: "range generate_code = range code_of_bytes"
proof (rule set_eqI, rule iffI)
  fix s
  assume "s \<in> range generate_code"
  then obtain r where "s = generate_code r" by blast
  then have "s = code_of_bytes (r 0, r 1, r 2, r 3)"
    by (simp add: generate_code_bytes code_of_bytes_def)
  then show "s \<in> range code_of_bytes" by blast
next
  fix s
  assume "s \<in> range code_of_bytes"
  then obtain a b c d where s: "s = code_of_bytes (a, b, c, d)"
    by (metis rangeE prod_cases4)
  have "s = generate_code (\<lambda>i. [a, b, c, d] ! i)"
    by (simp add: generate_code_bytes code_of_bytes_def s)
  then show "s \<in> range generate_code" by blast
qed

lemma card_range_generate_code: "card (range generate_code) = 4294967296"
proof -
  have "card (range code_of_bytes) = card (UNIV :: (byte \<times> byte \<times> byte \<times> byte) set)"
    by (rule card_image [OF inj_code_of_bytes])
  also have "\<dots> = 4294967296"
    by (simp add: card_cartesian_product card_word flip: UNIV_Times_UNIV)
  finally show ?thesis
    by (simp add: range_generate_code)
qed

lemma code_alphabet: "\<Union> (set ` range generate_code) = set hex_digits"
proof (rule equalityI)
  show "\<Union> (set ` range generate_code) \<subseteq> set hex_digits"
    using set_generate_code by auto
next
  show "set hex_digits \<subseteq> \<Union> (set ` range generate_code)"
  proof
    fix ch
    assume "ch \<in> set hex_digits"
    then obtain k where k: "k < 16" "ch = hex_digits ! k"
      by (metis in_set_conv_nth length_hex_digits)
    have "unat (of_nat k :: byte) = k"
      using k(1) by (simp add: unat_of_nat)
    then have "ch \<in> set (byteToHex (of_nat k))"
      using k by (simp add: byteToHex_def)
    then have "ch \<in> set (generate_code (\<lambda>i. of_nat k))"
      by (simp add: generate_code_bytes)
    then show "ch \<in> \<Union> (set ` range generate_code)" by blast
  qed
qed

lemma card_code_alphabet: "card (\<Union> (set ` range generate_code)) = 16"
  unfolding code_alphabet
  using distinct_card [OF distinct_hex_digits] by (simp add: length_hex_digits)

text \<open>
  Claim C8, as the code has it: every code the generator produces is a string of
  exactly 8 characters, each of them one of the 16 lower-case hexadecimal digits
  \<^verbatim>\<open>0123456789abcdef\<close>; there are \<open>16 ^ 8 = 4294967296\<close> such codes and the generator
  can produce each of them.
\<close>

theorem C8_code_is_8_hex_digits:
  "length (generate_code rnds) = 8
   \<and> list_all (\<lambda>ch. ch \<in> set ''0123456789abcdef'') (generate_code rnds)
   \<and> card (range generate_code) = 16 ^ 8"
proof -
  have "list_all (\<lambda>ch. ch \<in> set hex_digits) (generate_code rnds)"
    using set_generate_code [of rnds] by (auto simp: list_all_iff)
  then have "list_all (\<lambda>ch. ch \<in> set ''0123456789abcdef'') (generate_code rnds)"
    by (simp only: hex_digits_def)
  then show ?thesis
    by (simp add: length_generate_code card_range_generate_code)
qed

theorem C8_code_is_8_hex_digits_witness:
  "generate_code (rnd_code env_late) = ''33333333''
   \<and> length ''33333333'' = (8::nat)
   \<and> list_all (\<lambda>ch. ch \<in> set ''0123456789abcdef'') ''33333333''"
proof -
  have "generate_code (rnd_code env_late) = ''33333333''"
    by (simp add: generate_code_bytes env_late_def byteToHex_def hex_digits_def)
  with C8_code_is_8_hex_digits [of "rnd_code env_late"] show ?thesis
    by simp
qed

text \<open>
  Claim C8, as the spec words it (a 36-symbol alphabet, about \<open>2.8e12\<close> codes), does not
  hold: the characters that occur in codes are 16 in number, not 36, and the number of
  codes is \<open>4294967296\<close>, not \<open>36 ^ 8 = 2821109907456\<close>.
\<close>

theorem C8_alphabet_counterexample:
  "card (\<Union> (set ` range generate_code)) \<noteq> 36 \<and> card (range generate_code) \<noteq> 36 ^ 8"
  using card_code_alphabet card_range_generate_code by simp


section \<open>The sample values, evaluated\<close>

lemma uuidv4_samples:
  "uuidv4 (rnd_filename env_a) = ''aaaaaaaa-aaaa-4aaa-aaaa-aaaaaaaaaaaa''"
  "uuidv4 (rnd_filename env_b) = ''bbbbbbbb-bbbb-4bbb-bbbb-bbbbbbbbbbbb''"
  "uuidv4 (rnd_filename env_late) = ''cccccccc-cccc-4ccc-8ccc-cccccccccccc''"
  by (simp_all add: uuidv4_def unsafeStringify_def v4_bytes_def byteToHex_def hex_digits_def
      env_a_def env_b_def env_late_def)

lemma generate_code_samples:
  "generate_code (rnd_code env_a) = ''11111111''"
  "generate_code (rnd_code env_b) = ''11111111''"
  "generate_code (rnd_code env_late) = ''33333333''"
  by (simp_all add: generate_code_bytes byteToHex_def hex_digits_def env_a_def env_b_def
      env_late_def)

lemma extname_samples:
  "extname (originalname file_a) = ''.png''"
  "extname (originalname file_b) = ''.jpg''"
  "extname (originalname file_empty) = ''.png''"
  by (simp_all add: extname_def last_component_def file_a_def file_b_def file_empty_def)

lemma storage_filename_samples:
  "storage_filename (rnd_filename env_a) file_a = ''aaaaaaaa-aaaa-4aaa-aaaa-aaaaaaaaaaaa.png''"
  "storage_filename (rnd_filename env_b) file_b = ''bbbbbbbb-bbbb-4bbb-bbbb-bbbbbbbbbbbb.jpg''"
  "storage_filename (rnd_filename env_a) file_empty = ''aaaaaaaa-aaaa-4aaa-aaaa-aaaaaaaaaaaa.png''"
  "storage_filename (rnd_filename env_late) file_b = ''cccccccc-cccc-4ccc-8ccc-cccccccccccc.jpg''"
  by (simp_all add: storage_filename_def uuidv4_samples extname_samples)

lemma content_samples:
  "content file_a = [1, 2, 3]" "content file_b = [4, 5]" "content file_empty = []"
  by (simp_all add: file_a_def file_b_def file_empty_def)

lemma env_samples:
  "mongo_up env_a" "mongo_up env_b" "mongo_up env_late"
  "now env_a = 0" "now env_b = 1000" "now env_late = 90000000"
  by (simp_all add: env_a_def env_b_def env_late_def)

section \<open>POST /upload\<close>

lemma post_upload_missing:
  "post_upload e None st = (Json 400 [(''error'', ''No file uploaded'')], st)"
  by (simp add: post_upload_def multer_single_def)

lemma post_upload_file:
  assumes "mongo_up e"
  shows "post_upload e (Some file) st =
    (Json 200 [(''code'', generate_code (rnd_code e))],
     st\<lparr>uploads := (uploads st)(storage_filename (rnd_filename e) file \<mapsto> content file),
        images := images st @ [\<lparr>code = generate_code (rnd_code e),
                                filename = storage_filename (rnd_filename e) file,
                                createdAt = now e\<rparr>]\<rparr>)"
  using assms by (simp add: post_upload_def multer_single_def Let_def)

lemma post_upload_file_mongo_down:
  assumes "\<not> mongo_up e"
  shows "post_upload e (Some file) st =
    (Json 500 [(''error'', ''Upload failed due to server error'')],
     st\<lparr>uploads := (uploads st)(storage_filename (rnd_filename e) file \<mapsto> content file)\<rparr>)"
  using assms by (simp add: post_upload_def multer_single_def Let_def)

lemma upload_a:
  "post_upload env_a (Some file_a) empty_state = (Json 200 [(''code'', ''11111111'')], state_a)"
  by (simp add: state_a_def post_upload_file env_samples generate_code_samples)

lemma state_a_eq:
  "state_a =
     \<lparr>images = [\<lparr>code = ''11111111'',
                  filename = ''aaaaaaaa-aaaa-4aaa-aaaa-aaaaaaaaaaaa.png'', createdAt = 0\<rparr>],
      users = [],
      uploads = [''aaaaaaaa-aaaa-4aaa-aaaa-aaaaaaaaaaaa.png'' \<mapsto> [1, 2, 3]]\<rparr>"
  by (simp add: state_a_def post_upload_file env_samples generate_code_samples
      storage_filename_samples content_samples empty_state_def)

lemma upload_b:
  "post_upload env_b (Some file_b) state_a = (Json 200 [(''code'', ''11111111'')], state_ab)"
  by (simp add: state_ab_def post_upload_file env_samples generate_code_samples)

lemma state_ab_eq:
  "state_ab =
     \<lparr>images = [\<lparr>code = ''11111111'',
                  filename = ''aaaaaaaa-aaaa-4aaa-aaaa-aaaaaaaaaaaa.png'', createdAt = 0\<rparr>,
                \<lparr>code = ''11111111'',
                  filename = ''bbbbbbbb-bbbb-4bbb-bbbb-bbbbbbbbbbbb.jpg'', createdAt = 1000\<rparr>],
      users = [],
      uploads = [''aaaaaaaa-aaaa-4aaa-aaaa-aaaaaaaaaaaa.png'' \<mapsto> [1, 2, 3],
                 ''bbbbbbbb-bbbb-4bbb-bbbb-bbbbbbbbbbbb.jpg'' \<mapsto> [4, 5]]\<rparr>"
  by (simp add: state_ab_def state_a_eq post_upload_file env_samples generate_code_samples
      storage_filename_samples content_samples)

text \<open>
  Claim C5, as the code has it: for every Upload call whose file part is missing, no
  metadata record is created, no blob is written (the state is unchanged) and the call
  returns the validation error, status 400 with \<^verbatim>\<open>{error: 'No file uploaded'}\<close>.
\<close>

theorem C5_missing_file_rejected:
  "post_upload e None st = (Json 400 [(''error'', ''No file uploaded'')], st)"
  by (fact post_upload_missing)

theorem C5_missing_file_rejected_witness:
  "post_upload env_a None empty_state = (Json 400 [(''error'', ''No file uploaded'')], empty_state)"
  using C5_missing_file_rejected [of env_a empty_state] by simp

text \<open>
  Claim C5, as stated, includes a present file of zero bytes. The handler tests only
  whether multer attached a file (line 57), and multer stores a part of zero bytes like
  any other: the upload of \<open>file_empty\<close> writes an empty blob, creates a record and
  returns a code.
\<close>

theorem C5_zero_bytes_counterexample:
  "content file_empty = []
   \<and> fst (post_upload env_a (Some file_empty) empty_state) = Json 200 [(''code'', ''11111111'')]
   \<and> images (snd (post_upload env_a (Some file_empty) empty_state)) =
       [\<lparr>code = ''11111111'', filename = ''aaaaaaaa-aaaa-4aaa-aaaa-aaaaaaaaaaaa.png'',
         createdAt = 0\<rparr>]
   \<and> uploads (snd (post_upload env_a (Some file_empty) empty_state))
       ''aaaaaaaa-aaaa-4aaa-aaaa-aaaaaaaaaaaa.png'' = Some []"
  by (simp add: post_upload_file env_samples generate_code_samples storage_filename_samples
      empty_state_def content_samples)

text \<open>
  Claim C2, as the code has it: the insert of an upload never fails with DuplicateCode.
  The Image schema has no unique index and the handler looks nothing up before it
  saves, so whenever the file is present and the database answers, the upload returns
  its code and appends one record carrying it, whatever records the collection already
  holds; the number of records with that code grows by one.
\<close>

theorem C2_insert_ignores_existing_code:
  assumes "mongo_up e"
  shows "fst (post_upload e (Some file) st) = Json 200 [(''code'', generate_code (rnd_code e))]
    \<and> images (snd (post_upload e (Some file) st)) =
        images st @ [\<lparr>code = generate_code (rnd_code e),
                       filename = storage_filename (rnd_filename e) file,
                       createdAt = now e\<rparr>]
    \<and> length (filter (\<lambda>img. code img = generate_code (rnd_code e))
          (images (snd (post_upload e (Some file) st)))) =
        Suc (length (filter (\<lambda>img. code img = generate_code (rnd_code e)) (images st)))"
  using assms by (simp add: post_upload_file)

theorem C2_insert_ignores_existing_code_witness:
  "mongo_up env_b
   \<and> findOne (\<lambda>img. code img = generate_code (rnd_code env_b)) (images state_a) \<noteq> None
   \<and> fst (post_upload env_b (Some file_b) state_a) = Json 200 [(''code'', ''11111111'')]
   \<and> length (filter (\<lambda>img. code img = ''11111111'')
        (images (snd (post_upload env_b (Some file_b) state_a)))) = 2"
  using C2_insert_ignores_existing_code [of env_b file_b state_a]
  by (simp add: env_samples generate_code_samples state_a_eq findOne_def)

text \<open>
  Claim C2, as stated, does not hold: two uploads that draw the same code both succeed
  while the first record is still active, and the collection then holds two records
  with that code.
\<close>

theorem C2_duplicate_code_counterexample:
  "fst (post_upload env_a (Some file_a) empty_state) = Json 200 [(''code'', ''11111111'')]
   \<and> snd (post_upload env_a (Some file_a) empty_state) = state_a
   \<and> fst (post_upload env_b (Some file_b) state_a) = Json 200 [(''code'', ''11111111'')]
   \<and> snd (post_upload env_b (Some file_b) state_a) = state_ab
   \<and> map code (images state_ab) = [''11111111'', ''11111111'']
   \<and> list_all (\<lambda>img. \<not> isExpired (now env_b) img) (images state_ab)"
  by (simp add: upload_a upload_b state_ab_eq isExpired_def expires_ms_def env_samples)





text \<open>
  Claim C9: the name under which an upload's blob is written is the freshly generated
  UUID of the request followed by the extension of the caller's file name, and nothing
  else of that name enters it: the first 36 characters are the UUID, the rest is the
  extension, and two uploads that differ only in the part of the file name before the
  extension are indistinguishable.
\<close>

theorem C9_storage_name_is_uuid_and_extension:
  "uploads (snd (post_upload e (Some file) st)) =
      (uploads st)(uuidv4 (rnd_filename e) @ extname (originalname file) \<mapsto> content file)
   \<and> take 36 (storage_filename (rnd_filename e) file) = uuidv4 (rnd_filename e)
   \<and> drop 36 (storage_filename (rnd_filename e) file) = extname (originalname file)
   \<and> (extname (originalname file') = extname (originalname file) \<and> content file' = content file
        \<longrightarrow> post_upload e (Some file') st = post_upload e (Some file) st)"
proof -
  have "uploads (snd (post_upload e (Some file) st)) =
      (uploads st)(storage_filename (rnd_filename e) file \<mapsto> content file)"
    by (cases "mongo_up e") (simp_all add: post_upload_file post_upload_file_mongo_down)
  moreover have "post_upload e (Some file') st = post_upload e (Some file) st"
    if "extname (originalname file') = extname (originalname file)"
      and "content file' = content file"
    using that by (simp add: post_upload_def multer_single_def storage_filename_def)
  ultimately show ?thesis
    by (simp add: storage_filename_def length_uuidv4)
qed

theorem C9_storage_name_is_uuid_and_extension_witness:
  "extname ''dog.png'' = extname (originalname file_a)
   \<and> post_upload env_a (Some \<lparr>originalname = ''dog.png'', content = content file_a\<rparr>) empty_state
       = post_upload env_a (Some file_a) empty_state
   \<and> storage_filename (rnd_filename env_a) file_a = ''aaaaaaaa-aaaa-4aaa-aaaa-aaaaaaaaaaaa.png''
   \<and> take 36 ''aaaaaaaa-aaaa-4aaa-aaaa-aaaaaaaaaaaa.png'' = uuidv4 (rnd_filename env_a)
   \<and> drop 36 ''aaaaaaaa-aaaa-4aaa-aaaa-aaaaaaaaaaaa.png'' = ''.png''"
proof -
  have ext: "extname ''dog.png'' = extname (originalname file_a)"
    by (simp add: extname_def last_component_def file_a_def)
  with C9_storage_name_is_uuid_and_extension
    [of env_a file_a empty_state "\<lparr>originalname = ''dog.png'', content = content file_a\<rparr>"]
  show ?thesis
    by (simp add: storage_filename_samples extname_samples)
qed


section \<open>Lookups in a collection\<close>

lemma findOne_None_iff: "findOne q docs = None \<longleftrightarrow> (\<forall>d \<in> set docs. \<not> q d)"
  by (auto simp: findOne_def find_None_iff)

lemma findOne_Some_holds: "findOne q docs = Some d \<Longrightarrow> q d \<and> d \<in> set docs"
  unfolding findOne_def by (induction docs) (auto split: if_splits)

lemma findOne_append_Some: "findOne q docs = Some d \<Longrightarrow> findOne q (docs @ docs') = Some d"
  unfolding findOne_def by (induction docs) auto

lemma findOne_append_None:
  "findOne q docs = None \<Longrightarrow> q d \<Longrightarrow> findOne q (docs @ [d]) = Some d"
  unfolding findOne_def by (induction docs) (auto split: if_splits)

lemma findOne_filter_keeps:
  "findOne q docs = Some d \<Longrightarrow> keep d \<Longrightarrow> findOne q (filter keep docs) = Some d"
  unfolding findOne_def by (induction docs) (auto split: if_splits)

lemma findOne_deleteOne_other:
  assumes "\<And>d. q' d \<Longrightarrow> \<not> q d"
  shows "findOne q (deleteOne q' docs) = findOne q docs"
  unfolding findOne_def using assms by (induction docs) auto

lemma set_deleteOne: "set (deleteOne q docs) \<subseteq> set docs"
  by (induction docs) auto

lemma deleteOne_single:
  "length (filter q docs) \<le> 1 \<Longrightarrow> deleteOne q docs = filter (\<lambda>d. \<not> q d) docs"
proof (induction docs)
  case Nil
  then show ?case by simp
next
  case (Cons d docs)
  show ?case
  proof (cases "q d")
    case True
    with Cons.prems have "filter q docs = []" by simp
    then have "filter (\<lambda>d. \<not> q d) docs = docs"
      by (simp add: filter_empty_conv)
    with True show ?thesis by simp
  next
    case False
    with Cons show ?thesis by simp
  qed
qed

section \<open>GET /download/:code\<close>

lemma get_download_absent:
  assumes "mongo_up e" and "findOne (\<lambda>img. code img = c) (images st) = None"
  shows "get_download e c st = (Send 404 ''Invalid or expired code'', st)"
  using assms by (simp add: get_download_def)

lemma get_download_orphan:
  assumes "mongo_up e" and "findOne (\<lambda>img. code img = c) (images st) = Some img"
    and "uploads st (filename img) = None"
  shows "get_download e c st =
    (Send 404 ''Image expired or missing'',
     st\<lparr>images := deleteOne (\<lambda>img. code img = c) (images st)\<rparr>)"
  using assms by (simp add: get_download_def)

lemma get_download_served:
  assumes "mongo_up e" and "serves c img bytes st"
  shows "get_download e c st = (Download (filename img) bytes, st)"
  using assms by (simp add: get_download_def serves_def)

lemma get_download_mongo_down:
  assumes "\<not> mongo_up e"
  shows "get_download e c st = (Send 500 ''Server error'', st)"
  using assms by (simp add: get_download_def)

lemma get_download_images_subset: "set (images (snd (get_download e c st))) \<subseteq> set (images st)"
  using set_deleteOne [of "\<lambda>img. code img = c" "images st"]
  by (simp add: get_download_def split: option.split)

lemma get_download_uploads: "uploads (snd (get_download e c st)) = uploads st"
  by (simp add: get_download_def split: option.split)

lemma ttl_monitor_absent:
  assumes "\<forall>img \<in> set (images st). code img = c \<longrightarrow> isExpired t img"
  shows "findOne (\<lambda>img. code img = c) (images (ttl_monitor t st)) = None"
  using assms by (auto simp: findOne_None_iff ttl_monitor_def)

lemma state_a_samples:
  "images state_a = [\<lparr>code = ''11111111'',
       filename = ''aaaaaaaa-aaaa-4aaa-aaaa-aaaaaaaaaaaa.png'', createdAt = 0\<rparr>]"
  "uploads state_a ''aaaaaaaa-aaaa-4aaa-aaaa-aaaaaaaaaaaa.png'' = Some [1, 2, 3]"
  by (simp_all add: state_a_eq)

lemma serves_state_a:
  "serves ''11111111'' \<lparr>code = ''11111111'',
       filename = ''aaaaaaaa-aaaa-4aaa-aaaa-aaaaaaaaaaaa.png'', createdAt = 0\<rparr> [1, 2, 3] state_a"
  by (simp add: serves_def findOne_def state_a_samples)

lemma serves_state_ab:
  "serves ''11111111'' \<lparr>code = ''11111111'',
       filename = ''aaaaaaaa-aaaa-4aaa-aaaa-aaaaaaaaaaaa.png'', createdAt = 0\<rparr> [1, 2, 3] state_ab"
  by (simp add: serves_def findOne_def state_ab_eq)

text \<open>
  Claim C3, as the code has it: for every code all of whose records have a createdAt
  24 hours or more in the past, Download(code) returns not-found once the TTL monitor
  has made its pass, whether the blob is present or not; the pass removes the records
  and leaves the files where they are.
\<close>

theorem C3_not_found_after_ttl_pass:
  assumes "mongo_up e"
    and "\<forall>img \<in> set (images st). code img = c \<longrightarrow> isExpired t img"
  shows "get_download e c (ttl_monitor t st) =
           (Send 404 ''Invalid or expired code'', ttl_monitor t st)
         \<and> uploads (ttl_monitor t st) = uploads st"
  using assms(1) ttl_monitor_absent [OF assms(2)]
  by (simp add: get_download_absent) (simp add: ttl_monitor_def)

theorem C3_not_found_after_ttl_pass_witness:
  "mongo_up env_late
   \<and> list_all (\<lambda>img. isExpired (now env_late) img) (images state_a)
   \<and> uploads state_a ''aaaaaaaa-aaaa-4aaa-aaaa-aaaaaaaaaaaa.png'' = Some [1, 2, 3]
   \<and> fst (get_download env_late ''11111111'' (ttl_monitor (now env_late) state_a)) =
        Send 404 ''Invalid or expired code''"
proof -
  have expired: "\<forall>img \<in> set (images state_a). code img = ''11111111'' \<longrightarrow>
      isExpired (now env_late) img"
    by (simp add: state_a_samples isExpired_def expires_ms_def env_samples)
  from C3_not_found_after_ttl_pass [OF env_samples(3) expired]
  show ?thesis
    by (simp add: env_samples state_a_samples isExpired_def expires_ms_def)
qed

text \<open>
  Claim C3, as stated, makes the lookup treat an expired record that has not been purged
  as absent. The lookup of line 73 filters on the code alone: 25 hours after the upload
  and before any pass of the TTL monitor, the download still returns the file.
\<close>

theorem C3_unpurged_record_counterexample:
  "list_all (\<lambda>img. isExpired (now env_late) img) (images state_a)
   \<and> fst (get_download env_late ''11111111'' state_a) =
       Download ''aaaaaaaa-aaaa-4aaa-aaaa-aaaaaaaaaaaa.png'' [1, 2, 3]"
  by (simp add: get_download_served [OF env_samples(3) serves_state_a]
      state_a_samples isExpired_def expires_ms_def env_samples)


section \<open>What each event preserves\<close>

lemma post_upload_keeps_serves:
  assumes "serves c img bytes st"
    and "\<And>file. part = Some file \<Longrightarrow> storage_filename (rnd_filename e) file \<noteq> filename img"
  shows "serves c img bytes (snd (post_upload e part st))"
proof (cases part)
  case None
  with assms(1) show ?thesis by (simp add: post_upload_missing)
next
  case (Some f)
  with assms(2) have "storage_filename (rnd_filename e) f \<noteq> filename img" by simp
  with assms(1) Some show ?thesis
    by (cases "mongo_up e")
      (simp_all add: post_upload_file post_upload_file_mongo_down serves_def findOne_append_Some)
qed

lemma get_download_keeps_serves:
  assumes "serves c img bytes st"
  shows "serves c img bytes (snd (get_download e c' st))"
proof (cases "c' = c")
  case True
  show ?thesis
  proof (cases "mongo_up e")
    case True
    with assms \<open>c' = c\<close> show ?thesis by (simp add: get_download_served)
  next
    case False
    with assms show ?thesis by (simp add: get_download_mongo_down)
  qed
next
  case False
  then have "findOne (\<lambda>x. code x = c) (deleteOne (\<lambda>x. code x = c') (images st)) =
      findOne (\<lambda>x. code x = c) (images st)"
    by (intro findOne_deleteOne_other) simp
  with assms show ?thesis
    by (simp add: get_download_def serves_def split: option.split)
qed

lemma post_signup_artifacts:
  "images (snd (post_signup L e em pw st)) = images st"
  "uploads (snd (post_signup L e em pw st)) = uploads st"
  by (auto simp: post_signup_def user_save_def Let_def split: option.splits if_splits)

lemma post_login_state: "snd (post_login L e em pw st) = st"
  by (simp add: post_login_def split: option.split)

lemma get_static_state: "snd (get_static path st) = st"
  by (simp add: get_static_def split: option.split)

lemma ttl_monitor_keeps_serves:
  assumes "serves c img bytes st" and "t - createdAt img < expires_ms"
  shows "serves c img bytes (ttl_monitor t st)"
  using assms by (simp add: serves_def ttl_monitor_def findOne_filter_keeps isExpired_def)

lemma step_keeps_serves:
  assumes "serves c img bytes st" and "undisturbed (filename img) (createdAt img) ev"
  shows "serves c img bytes (step L ev st)"
proof (cases ev)
  case (Request e r)
  show ?thesis
  proof (cases r)
    case (PostUpload part)
    with assms Request show ?thesis
      by (auto intro: post_upload_keeps_serves)
  next
    case (GetDownload c')
    with assms Request show ?thesis by (simp add: get_download_keeps_serves)
  next
    case (GetStatic path)
    with assms Request show ?thesis by (simp add: get_static_state)
  next
    case (PostSignup em pw)
    with assms Request show ?thesis by (simp add: serves_def post_signup_artifacts)
  next
    case (PostLogin em pw)
    with assms Request show ?thesis by (simp add: post_login_state)
  qed
next
  case (TtlPass t)
  with assms show ?thesis by (simp add: ttl_monitor_keeps_serves)
next
  case (Unlink n)
  with assms show ?thesis by (simp add: serves_def)
qed

lemma run_keeps_serves:
  assumes "serves c img bytes st"
    and "\<forall>ev \<in> set evs. undisturbed (filename img) (createdAt img) ev"
  shows "serves c img bytes (run L evs st)"
  using assms by (induction evs arbitrary: st) (simp_all add: step_keeps_serves)

lemma step_keeps_absent:
  assumes "findOne (\<lambda>x. code x = c) (images st) = None" and "\<not> draws_code c ev"
  shows "findOne (\<lambda>x. code x = c) (images (step L ev st)) = None"
proof (cases ev)
  case (Request e r)
  show ?thesis
  proof (cases r)
    case (PostUpload part)
    show ?thesis
    proof (cases part)
      case None
      with assms Request PostUpload show ?thesis by (simp add: post_upload_missing)
    next
      case (Some f)
      with assms Request PostUpload show ?thesis
        by (cases "mongo_up e")
          (simp_all add: post_upload_file post_upload_file_mongo_down findOne_None_iff)
    qed
  next
    case (GetDownload c')
    with assms(1) Request get_download_images_subset [of e c' st] show ?thesis
      by (auto simp: findOne_None_iff)
  next
    case (GetStatic path)
    with assms Request show ?thesis by (simp add: get_static_state)
  next
    case (PostSignup em pw)
    with assms Request show ?thesis by (simp add: post_signup_artifacts)
  next
    case (PostLogin em pw)
    with assms Request show ?thesis by (simp add: post_login_state)
  qed
next
  case (TtlPass t)
  with assms show ?thesis by (auto simp: findOne_None_iff ttl_monitor_def)
next
  case (Unlink n)
  with assms show ?thesis by simp
qed

lemma run_keeps_absent:
  assumes "findOne (\<lambda>x. code x = c) (images st) = None"
    and "\<forall>ev \<in> set evs. \<not> draws_code c ev"
  shows "findOne (\<lambda>x. code x = c) (images (run L evs st)) = None"
  using assms by (induction evs arbitrary: st) (simp_all add: step_keeps_absent)

lemma post_upload_serves:
  assumes "mongo_up e"
    and "findOne (\<lambda>img. code img = generate_code (rnd_code e)) (images st) = None"
  shows "serves (generate_code (rnd_code e))
           \<lparr>code = generate_code (rnd_code e),
            filename = storage_filename (rnd_filename e) file, createdAt = now e\<rparr>
           (content file) (snd (post_upload e (Some file) st))"
  using assms by (simp add: post_upload_file serves_def findOne_append_None)


lemma step_keeps_file:
  assumes "\<not> writes_file name ev"
  shows "uploads (step L ev st) name = uploads st name"
proof (cases ev)
  case (Request e r)
  show ?thesis
  proof (cases r)
    case (PostUpload part)
    show ?thesis
    proof (cases part)
      case None
      with Request PostUpload show ?thesis by (simp add: post_upload_missing)
    next
      case (Some f)
      with assms Request PostUpload show ?thesis
        by (cases "mongo_up e") (auto simp: post_upload_file post_upload_file_mongo_down)
    qed
  next
    case (GetDownload c)
    with Request show ?thesis by (simp add: get_download_uploads)
  next
    case (GetStatic path)
    with Request show ?thesis by (simp add: get_static_state)
  next
    case (PostSignup em pw)
    with Request show ?thesis by (simp add: post_signup_artifacts)
  next
    case (PostLogin em pw)
    with Request show ?thesis by (simp add: post_login_state)
  qed
next
  case (TtlPass t)
  then show ?thesis by (simp add: ttl_monitor_def)
next
  case (Unlink n)
  with assms show ?thesis by simp
qed

lemma run_keeps_file:
  assumes "\<forall>ev \<in> set evs. \<not> writes_file name ev"
  shows "uploads (run L evs st) name = uploads st name"
  using assms by (induction evs arbitrary: st) (simp_all add: step_keeps_file)

lemma history_undisturbed:
  "list_all (undisturbed ''aaaaaaaa-aaaa-4aaa-aaaa-aaaaaaaaaaaa.png'' 0) history"
  by (simp add: history_def expires_ms_def storage_filename_samples)

lemma history_draws_not:
  "list_all (\<lambda>ev. \<not> draws_code ''11111111'' ev) history"
  by (simp add: history_def generate_code_samples)

lemma history_writes_not:
  "list_all (\<lambda>ev. \<not> writes_file ''aaaaaaaa-aaaa-4aaa-aaaa-aaaaaaaaaaaa.png'' ev) history"
  by (simp add: history_def storage_filename_samples)

section \<open>Upload, then download\<close>

text \<open>
  Claim C1, as the code has it: for every upload that the database accepts and whose
  generated code is carried by no record already in the collection, Download with the
  returned code returns exactly the uploaded bytes, after any history in which the TTL
  monitor has not passed at or after the record's deadline, the file has not been
  removed out of band and no later upload has drawn the same storage name. The bytes
  may be empty.
\<close>

theorem C1_download_returns_uploaded_bytes:
  assumes "mongo_up e" and "mongo_up e'"
    and "findOne (\<lambda>img. code img = generate_code (rnd_code e)) (images st) = None"
    and "\<forall>ev \<in> set evs. undisturbed (storage_filename (rnd_filename e) file) (now e) ev"
  shows "fst (post_upload e (Some file) st) = Json 200 [(''code'', generate_code (rnd_code e))]
    \<and> fst (get_download e' (generate_code (rnd_code e))
              (run L evs (snd (post_upload e (Some file) st)))) =
        Download (storage_filename (rnd_filename e) file) (content file)"
proof -
  let ?img = "\<lparr>code = generate_code (rnd_code e),
    filename = storage_filename (rnd_filename e) file, createdAt = now e\<rparr>"
  have "serves (generate_code (rnd_code e)) ?img (content file)
      (snd (post_upload e (Some file) st))"
    using assms(1,3) by (rule post_upload_serves)
  moreover have "\<forall>ev \<in> set evs. undisturbed (filename ?img) (createdAt ?img) ev"
    using assms(4) by simp
  ultimately have "serves (generate_code (rnd_code e)) ?img (content file)
      (run L evs (snd (post_upload e (Some file) st)))"
    by (rule run_keeps_serves)
  with assms(2) have "get_download e' (generate_code (rnd_code e))
      (run L evs (snd (post_upload e (Some file) st))) =
      (Download (filename ?img) (content file), run L evs (snd (post_upload e (Some file) st)))"
    by (rule get_download_served)
  with assms(1) show ?thesis
    by (simp add: post_upload_file)
qed

theorem C1_download_returns_uploaded_bytes_witness:
  "mongo_up env_a \<and> mongo_up env_b
   \<and> findOne (\<lambda>img. code img = generate_code (rnd_code env_a)) (images empty_state) = None
   \<and> list_all (undisturbed (storage_filename (rnd_filename env_a) file_a) (now env_a)) history
   \<and> fst (post_upload env_a (Some file_a) empty_state) = Json 200 [(''code'', ''11111111'')]
   \<and> fst (get_download env_b ''11111111'' (run toy_libs history state_a)) =
       Download ''aaaaaaaa-aaaa-4aaa-aaaa-aaaaaaaaaaaa.png'' [1, 2, 3]"
proof -
  have fresh: "findOne (\<lambda>img. code img = generate_code (rnd_code env_a)) (images empty_state) = None"
    by (simp add: findOne_def empty_state_def)
  have quiet: "\<forall>ev \<in> set history.
      undisturbed (storage_filename (rnd_filename env_a) file_a) (now env_a) ev"
    using history_undisturbed by (simp add: list_all_iff storage_filename_samples env_samples)
  from C1_download_returns_uploaded_bytes [OF env_samples(1) env_samples(2) fresh quiet, of toy_libs]
  show ?thesis
    using fresh history_undisturbed
    by (simp add: env_samples generate_code_samples storage_filename_samples content_samples
        state_a_def)
qed

text \<open>
  Claim C1, as stated, holds for every upload. It fails for an upload whose generated
  code is already carried by an earlier record: the second upload of the sample
  history returns the code of the first, and the download of that code returns the
  bytes of the first upload, not those just uploaded.
\<close>

theorem C1_colliding_code_counterexample:
  "post_upload env_b (Some file_b) state_a = (Json 200 [(''code'', ''11111111'')], state_ab)
   \<and> content file_b = [4, 5]
   \<and> fst (get_download env_b ''11111111'' state_ab) =
       Download ''aaaaaaaa-aaaa-4aaa-aaaa-aaaaaaaaaaaa.png'' [1, 2, 3]"
  by (simp add: upload_b content_samples get_download_served [OF env_samples(2) serves_state_ab])


section \<open>A record whose blob is missing\<close>

lemma state_ab_orphan_eq:
  "state_ab_orphan =
     \<lparr>images = [\<lparr>code = ''11111111'',
                  filename = ''aaaaaaaa-aaaa-4aaa-aaaa-aaaaaaaaaaaa.png'', createdAt = 0\<rparr>,
                \<lparr>code = ''11111111'',
                  filename = ''bbbbbbbb-bbbb-4bbb-bbbb-bbbbbbbbbbbb.jpg'', createdAt = 1000\<rparr>],
      users = [],
      uploads = [''bbbbbbbb-bbbb-4bbb-bbbb-bbbbbbbbbbbb.jpg'' \<mapsto> [4, 5]]\<rparr>"
  by (auto simp: state_ab_orphan_def state_ab_eq)

lemma state_a_orphan_eq:
  "state_a_orphan =
     \<lparr>images = [\<lparr>code = ''11111111'',
                  filename = ''aaaaaaaa-aaaa-4aaa-aaaa-aaaaaaaaaaaa.png'', createdAt = 0\<rparr>],
      users = [], uploads = Map.empty\<rparr>"
  by (simp add: state_a_orphan_def state_a_eq)

lemma length_deleteOne:
  "findOne q docs = Some d \<Longrightarrow> Suc (length (deleteOne q docs)) = length docs"
  unfolding findOne_def by (induction docs) (auto split: if_splits)

text \<open>
  Claim C4, as the code has it: for every code whose lookup finds a metadata record with
  an absent blob, Download(code) deletes that record, the first one carrying the code,
  and returns not-found. When no other record carries the code, every later Download of
  it returns not-found as well, after any history in which no upload draws the same
  code again.
\<close>

theorem C4_orphan_record_removed:
  assumes "mongo_up e" and "mongo_up e'"
    and "findOne (\<lambda>x. code x = c) (images st) = Some img"
    and "uploads st (filename img) = None"
    and "\<forall>ev \<in> set evs. \<not> draws_code c ev"
  shows "get_download e c st =
           (Send 404 ''Image expired or missing'',
            st\<lparr>images := deleteOne (\<lambda>x. code x = c) (images st)\<rparr>)
    \<and> Suc (length (images (snd (get_download e c st)))) = length (images st)
    \<and> (length (filter (\<lambda>x. code x = c) (images st)) = 1 \<longrightarrow>
         images (snd (get_download e c st)) = filter (\<lambda>x. code x \<noteq> c) (images st)
         \<and> fst (get_download e' c (run L evs (snd (get_download e c st)))) =
             Send 404 ''Invalid or expired code'')"
proof -
  from assms(1,3,4) have first: "get_download e c st =
      (Send 404 ''Image expired or missing'',
       st\<lparr>images := deleteOne (\<lambda>x. code x = c) (images st)\<rparr>)"
    by (rule get_download_orphan)
  have shorter: "Suc (length (images (snd (get_download e c st)))) = length (images st)"
    using length_deleteOne [OF assms(3)] by (simp add: first)
  have later: "images (snd (get_download e c st)) = filter (\<lambda>x. code x \<noteq> c) (images st)
      \<and> fst (get_download e' c (run L evs (snd (get_download e c st)))) =
          Send 404 ''Invalid or expired code''"
    if single: "length (filter (\<lambda>x. code x = c) (images st)) = 1"
  proof -
    have deleted: "images (snd (get_download e c st)) = filter (\<lambda>x. code x \<noteq> c) (images st)"
      using single by (simp add: first deleteOne_single)
    then have "findOne (\<lambda>x. code x = c) (images (snd (get_download e c st))) = None"
      by (simp add: findOne_None_iff)
    then have "findOne (\<lambda>x. code x = c) (images (run L evs (snd (get_download e c st)))) = None"
      using assms(5) by (rule run_keeps_absent)
    with assms(2) have "get_download e' c (run L evs (snd (get_download e c st))) =
        (Send 404 ''Invalid or expired code'', run L evs (snd (get_download e c st)))"
      by (rule get_download_absent)
    with deleted show ?thesis by simp
  qed
  from first shorter later show ?thesis by blast
qed

theorem C4_orphan_record_removed_witness:
  "mongo_up env_b \<and> mongo_up env_late
   \<and> findOne (\<lambda>x. code x = ''11111111'') (images state_a_orphan) =
       Some \<lparr>code = ''11111111'', filename = ''aaaaaaaa-aaaa-4aaa-aaaa-aaaaaaaaaaaa.png'',
             createdAt = 0\<rparr>
   \<and> uploads state_a_orphan ''aaaaaaaa-aaaa-4aaa-aaaa-aaaaaaaaaaaa.png'' = None
   \<and> length (filter (\<lambda>x. code x = ''11111111'') (images state_a_orphan)) = 1
   \<and> list_all (\<lambda>ev. \<not> draws_code ''11111111'' ev) history
   \<and> fst (get_download env_b ''11111111'' state_a_orphan) = Send 404 ''Image expired or missing''
   \<and> images (snd (get_download env_b ''11111111'' state_a_orphan)) = []
   \<and> fst (get_download env_late ''11111111''
        (run toy_libs history (snd (get_download env_b ''11111111'' state_a_orphan)))) =
       Send 404 ''Invalid or expired code''"
proof -
  let ?img = "\<lparr>code = ''11111111'', filename = ''aaaaaaaa-aaaa-4aaa-aaaa-aaaaaaaaaaaa.png'',
    createdAt = 0\<rparr>"
  have found: "findOne (\<lambda>x. code x = ''11111111'') (images state_a_orphan) = Some ?img"
    by (simp add: findOne_def state_a_orphan_eq)
  have gone: "uploads state_a_orphan (filename ?img) = None"
    by (simp add: state_a_orphan_eq)
  have single: "length (filter (\<lambda>x. code x = ''11111111'') (images state_a_orphan)) = 1"
    by (simp add: state_a_orphan_eq)
  have quiet: "\<forall>ev \<in> set history. \<not> draws_code ''11111111'' ev"
    using history_draws_not by (simp add: list_all_iff)
  have purged: "filter (\<lambda>x. code x \<noteq> ''11111111'') (images state_a_orphan) = []"
    by (simp add: state_a_orphan_eq)
  note result = C4_orphan_record_removed
    [OF env_samples(2) env_samples(3) found gone quiet, of toy_libs]
  from result have first: "fst (get_download env_b ''11111111'' state_a_orphan) =
      Send 404 ''Image expired or missing''"
    by simp
  note unique = result [THEN conjunct2, THEN conjunct2, rule_format, OF single]
  from unique [THEN conjunct1]
  have emptied: "images (snd (get_download env_b ''11111111'' state_a_orphan)) = []"
    by (simp only: purged)
  note later = unique [THEN conjunct2]
  from found gone single history_draws_not first emptied later show ?thesis
    by (simp add: env_samples)
qed

text \<open>
  Claim C4, as stated, covers every code with an active record whose blob is absent.
  When two records carry the code, the handler's \<^verbatim>\<open>deleteOne\<close> removes the first of them
  only: the first download returns not-found, and the next download of the same code
  finds the second record and returns its file.
\<close>

theorem C4_second_record_counterexample:
  "findOne (\<lambda>x. code x = ''11111111'') (images state_ab_orphan) =
       Some \<lparr>code = ''11111111'', filename = ''aaaaaaaa-aaaa-4aaa-aaaa-aaaaaaaaaaaa.png'',
             createdAt = 0\<rparr>
   \<and> uploads state_ab_orphan ''aaaaaaaa-aaaa-4aaa-aaaa-aaaaaaaaaaaa.png'' = None
   \<and> fst (get_download env_b ''11111111'' state_ab_orphan) =
       Send 404 ''Image expired or missing''
   \<and> fst (get_download env_b ''11111111'' (snd (get_download env_b ''11111111'' state_ab_orphan)))
       = Download ''bbbbbbbb-bbbb-4bbb-bbbb-bbbbbbbbbbbb.jpg'' [4, 5]"
  by (simp add: get_download_def findOne_def state_ab_orphan_eq env_samples)

section \<open>After expiry\<close>

text \<open>
  Claim C6, as the code has it: once the TTL monitor has passed 24 hours or more after
  the upload, Download with the artifact's code returns not-found, and keeps doing so
  for as long as no upload draws the same code again. The blob itself is never deleted
  by the server: as long as nothing else removes or overwrites the file, the static
  route \<^verbatim>\<open>GET /<storage name>\<close> returns the artifact's bytes.
\<close>

theorem C6_code_dead_blob_still_served:
  assumes "mongo_up e" and "mongo_up e'"
    and "\<forall>img \<in> set (images st). code img = generate_code (rnd_code e) \<longrightarrow> isExpired t img"
    and "expires_ms \<le> t - now e"
    and "\<forall>ev \<in> set evs. \<not> draws_code (generate_code (rnd_code e)) ev
           \<and> \<not> writes_file (storage_filename (rnd_filename e) file) ev"
  shows "fst (handle L e' (GetDownload (generate_code (rnd_code e)))
              (run L evs (ttl_monitor t (snd (post_upload e (Some file) st))))) =
           Send 404 ''Invalid or expired code''
    \<and> fst (handle L e' (GetStatic (storage_filename (rnd_filename e) file))
              (run L evs (ttl_monitor t (snd (post_upload e (Some file) st))))) =
           StaticFile (storage_filename (rnd_filename e) file) (content file)"
proof -
  let ?c = "generate_code (rnd_code e)" and ?name = "storage_filename (rnd_filename e) file"
  let ?st' = "snd (post_upload e (Some file) st)"
  have "\<forall>img \<in> set (images ?st'). code img = ?c \<longrightarrow> isExpired t img"
    using assms(1,3,4) by (auto simp: post_upload_file isExpired_def)
  then have "findOne (\<lambda>img. code img = ?c) (images (ttl_monitor t ?st')) = None"
    by (rule ttl_monitor_absent)
  moreover have "\<forall>ev \<in> set evs. \<not> draws_code ?c ev"
    using assms(5) by simp
  ultimately have "findOne (\<lambda>img. code img = ?c) (images (run L evs (ttl_monitor t ?st'))) = None"
    by (rule run_keeps_absent)
  with assms(2) have download: "get_download e' ?c (run L evs (ttl_monitor t ?st')) =
      (Send 404 ''Invalid or expired code'', run L evs (ttl_monitor t ?st'))"
    by (rule get_download_absent)
  have "\<forall>ev \<in> set evs. \<not> writes_file ?name ev"
    using assms(5) by simp
  then have "uploads (run L evs (ttl_monitor t ?st')) ?name = uploads (ttl_monitor t ?st') ?name"
    by (rule run_keeps_file)
  also have "\<dots> = Some (content file)"
    using assms(1) by (simp add: ttl_monitor_def post_upload_file)
  finally have "get_static ?name (run L evs (ttl_monitor t ?st')) =
      (StaticFile ?name (content file), run L evs (ttl_monitor t ?st'))"
    by (simp add: get_static_def)
  with download show ?thesis by simp
qed

theorem C6_code_dead_blob_still_served_witness:
  "mongo_up env_a \<and> mongo_up env_late
   \<and> list_all (\<lambda>img. isExpired (now env_late) img) (images empty_state)
   \<and> expires_ms \<le> now env_late - now env_a
   \<and> list_all (\<lambda>ev. \<not> draws_code ''11111111'' ev) history
   \<and> list_all (\<lambda>ev. \<not> writes_file ''aaaaaaaa-aaaa-4aaa-aaaa-aaaaaaaaaaaa.png'' ev) history
   \<and> fst (handle toy_libs env_late (GetDownload ''11111111'')
        (run toy_libs history (ttl_monitor (now env_late) state_a))) =
       Send 404 ''Invalid or expired code''
   \<and> fst (handle toy_libs env_late (GetStatic ''aaaaaaaa-aaaa-4aaa-aaaa-aaaaaaaaaaaa.png'')
        (run toy_libs history (ttl_monitor (now env_late) state_a))) =
       StaticFile ''aaaaaaaa-aaaa-4aaa-aaaa-aaaaaaaaaaaa.png'' [1, 2, 3]"
proof -
  have none: "\<forall>img \<in> set (images empty_state).
      code img = generate_code (rnd_code env_a) \<longrightarrow> isExpired (now env_late) img"
    by (simp add: empty_state_def)
  have late: "expires_ms \<le> now env_late - now env_a"
    by (simp add: env_samples expires_ms_def)
  have quiet: "\<forall>ev \<in> set history. \<not> draws_code (generate_code (rnd_code env_a)) ev
      \<and> \<not> writes_file (storage_filename (rnd_filename env_a) file_a) ev"
    using history_draws_not history_writes_not
    by (simp add: list_all_iff generate_code_samples storage_filename_samples)
  from C6_code_dead_blob_still_served
    [OF env_samples(1) env_samples(3) none late quiet, of toy_libs]
  show ?thesis
    using late history_draws_not history_writes_not
    by (simp add: env_samples(1,3) generate_code_samples storage_filename_samples
        content_samples state_a_def empty_state_def)
qed

text \<open>
  Claim C6, as stated, says that no exposed route returns the bytes after expiry. 25
  hours after the upload, with the record purged by the TTL monitor, the static route
  still returns the file; and before the monitor's pass, so does the download route.
\<close>

theorem C6_static_route_counterexample:
  "list_all (\<lambda>img. isExpired (now env_late) img) (images state_a)
   \<and> images (ttl_monitor (now env_late) state_a) = []
   \<and> fst (handle toy_libs env_late (GetStatic ''aaaaaaaa-aaaa-4aaa-aaaa-aaaaaaaaaaaa.png'')
        (ttl_monitor (now env_late) state_a)) =
       StaticFile ''aaaaaaaa-aaaa-4aaa-aaaa-aaaaaaaaaaaa.png'' [1, 2, 3]
   \<and> fst (handle toy_libs env_late (GetDownload ''11111111'') state_a) =
       Download ''aaaaaaaa-aaaa-4aaa-aaaa-aaaaaaaaaaaa.png'' [1, 2, 3]"
  by (simp add: get_download_served [OF env_samples(3) serves_state_a] get_static_def
      ttl_monitor_def state_a_samples isExpired_def expires_ms_def env_samples)


section \<open>What the responses show of a storage name\<close>



















section \<open>Signup, then login\<close>

lemma post_signup_created:
  assumes "post_signup L e (Some em) (Some pw) st = (Json 201 tok, st')"
  shows "em \<noteq> [] \<and> pw \<noteq> []
    \<and> registered L em
        \<lparr>email = email_setters L em,
         password = bcrypt_hash L (salt_hook e) (bcrypt_hash L (salt_route e) pw)\<rparr> st'"
proof -
  from assms have nonempty: "em \<noteq> []" "pw \<noteq> []" and up: "mongo_up e"
    by (auto simp: post_signup_def falsy_def split: if_splits)
  from assms nonempty up
  have fresh: "findOne (\<lambda>u. email u = email_setters L em) (users st) = None"
    by (auto simp: post_signup_def falsy_def split: option.splits)
  from assms nonempty up fresh
  have "st' = st\<lparr>users := users st @
      [\<lparr>email = email_setters L em,
        password = bcrypt_hash L (salt_hook e) (bcrypt_hash L (salt_route e) pw)\<rparr>]\<rparr>"
    by (auto simp: post_signup_def falsy_def user_save_def pre_save_def Let_def
        split: option.splits if_splits)
  with fresh nonempty show ?thesis
    by (simp add: registered_def findOne_append_None)
qed

lemma post_signup_users:
  "users (snd (post_signup L e em pw st)) = users st
   \<or> (\<exists>u. users (snd (post_signup L e em pw st)) = users st @ [u])"
  by (auto simp: post_signup_def user_save_def Let_def split: option.splits if_splits)

lemma post_upload_users: "users (snd (post_upload e part st)) = users st"
  by (cases part; cases "mongo_up e")
    (simp_all add: post_upload_missing post_upload_file post_upload_file_mongo_down)

lemma get_download_users: "users (snd (get_download e c st)) = users st"
  by (simp add: get_download_def split: option.split)

lemma step_keeps_registered:
  assumes "registered L em u st"
  shows "registered L em u (step L ev st)"
proof (cases ev)
  case (Request e r)
  show ?thesis
  proof (cases r)
    case (PostUpload part)
    with assms Request show ?thesis by (simp add: registered_def post_upload_users)
  next
    case (GetDownload c)
    with assms Request show ?thesis by (simp add: registered_def get_download_users)
  next
    case (GetStatic path)
    with assms Request show ?thesis by (simp add: get_static_state)
  next
    case (PostSignup em' pw')
    with assms Request post_signup_users [of L e em' pw' st] show ?thesis
      by (auto simp: registered_def findOne_append_Some)
  next
    case (PostLogin em' pw')
    with assms Request show ?thesis by (simp add: post_login_state)
  qed
next
  case (TtlPass t)
  with assms show ?thesis by (simp add: registered_def ttl_monitor_def)
next
  case (Unlink n)
  with assms show ?thesis by (simp add: registered_def)
qed

lemma run_keeps_registered:
  assumes "registered L em u st"
  shows "registered L em u (run L evs st)"
  using assms by (induction evs arbitrary: st) (simp_all add: step_keeps_registered)

lemma toy_signup:
  "post_signup toy_libs env_a (Some ''ann@example.org'') (Some ''secret'') empty_state =
     (Json 201 [(''token'', ''00000000-0000-4000-8000-000000000000'')],
      \<lparr>images = [],
       users = [\<lparr>email = ''ann@example.org'', password = ''s2$hash$s1$hash$secret''\<rparr>],
       uploads = Map.empty\<rparr>)"
  by (simp add: post_signup_def falsy_def findOne_def user_save_def user_valid_def pre_save_def
      toy_libs_def env_a_def empty_state_def uuidv4_def unsafeStringify_def v4_bytes_def
      byteToHex_def hex_digits_def)

text \<open>
  Claim C10: for every user created through signup with some password, a later login
  with the same email and the same password does not succeed; it returns the
  invalid-credentials error (or the server error when the database does not answer).
  Signup stores the hash of the hash of the password: the route hashes once (line 98)
  and the pre-save hook of the model hashes the result again, while login compares the
  plain password with what is stored. bcrypt is a parameter of the model; the two facts
  about it that the claim rests on are stated as hypotheses: the salt read back from
  the stored hash is the salt the hook used, and under that salt the password and its
  first hash do not hash to the same string.
\<close>

theorem C10_login_after_signup_fails:
  assumes "bcrypt_getSalt L (bcrypt_hash L (salt_hook e) (bcrypt_hash L (salt_route e) pw)) =
      salt_hook e"
    and "bcrypt_hash L (salt_hook e) pw \<noteq>
      bcrypt_hash L (salt_hook e) (bcrypt_hash L (salt_route e) pw)"
    and "post_signup L e (Some em) (Some pw) st = (Json 201 tok, st')"
  shows "fst (post_login L e' (Some em) (Some pw) (run L evs st')) =
    (if mongo_up e' then Json 401 [(''message'', ''Invalid credentials'')]
     else Json 500 [(''message'', ''Login failed'')])"
proof -
  let ?u = "\<lparr>email = email_setters L em,
    password = bcrypt_hash L (salt_hook e) (bcrypt_hash L (salt_route e) pw)\<rparr>"
  from post_signup_created [OF assms(3)]
  have nonempty: "em \<noteq> []" "pw \<noteq> []" and "registered L em ?u st'"
    by simp_all
  then have "registered L em ?u (run L evs st')"
    by (simp add: run_keeps_registered)
  then have found: "findOne (\<lambda>u. email u = email_setters L em) (users (run L evs st')) = Some ?u"
    by (simp add: registered_def)
  have "\<not> bcrypt_compare L pw (password ?u)"
    using assms(1,2) by (simp add: bcrypt_compare_def)
  with found nonempty show ?thesis
    by (simp add: post_login_def falsy_def)
qed

theorem C10_login_after_signup_fails_witness:
  "bcrypt_getSalt toy_libs (bcrypt_hash toy_libs (salt_hook env_a)
       (bcrypt_hash toy_libs (salt_route env_a) ''secret'')) = salt_hook env_a
   \<and> bcrypt_hash toy_libs (salt_hook env_a) ''secret'' \<noteq>
       bcrypt_hash toy_libs (salt_hook env_a) (bcrypt_hash toy_libs (salt_route env_a) ''secret'')
   \<and> fst (post_signup toy_libs env_a (Some ''ann@example.org'') (Some ''secret'') empty_state) =
       Json 201 [(''token'', ''00000000-0000-4000-8000-000000000000'')]
   \<and> fst (post_login toy_libs env_b (Some ''ann@example.org'') (Some ''secret'')
        (run toy_libs history
          (snd (post_signup toy_libs env_a (Some ''ann@example.org'') (Some ''secret'')
             empty_state)))) =
       Json 401 [(''message'', ''Invalid credentials'')]"
proof -
  have salt: "bcrypt_getSalt toy_libs (bcrypt_hash toy_libs (salt_hook env_a)
      (bcrypt_hash toy_libs (salt_route env_a) ''secret'')) = salt_hook env_a"
    by (simp add: toy_libs_def env_a_def)
  have differ: "bcrypt_hash toy_libs (salt_hook env_a) ''secret'' \<noteq>
      bcrypt_hash toy_libs (salt_hook env_a) (bcrypt_hash toy_libs (salt_route env_a) ''secret'')"
    by (simp add: toy_libs_def env_a_def)
  from C10_login_after_signup_fails [OF salt differ toy_signup, of env_b history]
  show ?thesis
    using salt differ by (simp add: toy_signup env_samples)
qed


end
